theory Spec2Isabelle
  imports Complex_Main
begin

section \<open>Python values\<close>

text \<open>
  A Python \<open>str\<close> is a sequence of Unicode code points, so it is modelled as a list of
  code points; \<open>str\<close> turns an ASCII literal into such a list. Exceptions are values of
  the type \<open>error\<close>, and a computation that may raise returns \<open>error + 'a\<close>.
\<close>

type_synonym pystr = "nat list"

definition str :: "string \<Rightarrow> pystr" where
  "str s = map of_char s"

datatype error =
    LookupError
  | ValueError
  | ZeroDivisionError
  | UnboundLocalError
  | AssertionError
  | FileNotFoundError
  | AttributeError
  | ImportError
  | TypeError
  | ScorerError

section \<open>Decoding an id sequence (\<open>BaseRunner._convert_idx2sentence\<close>)\<close>

text \<open>
  \<open>vocabulary.idx2word\<close> is a table from ids to words; an id that is not in it makes the
  lookup raise (\<open>KeyError\<close> for a dict, \<open>IndexError\<close> for a list, both a \<open>LookupError\<close>).
\<close>

type_synonym vocabulary = "int \<rightharpoonup> pystr"

text \<open>The function returns a list of words when \<open>zh\<close> is set and a string otherwise.\<close>

datatype caption = Tokens "pystr list" | Sentence pystr

text \<open>\<open>sep.join(words)\<close>\<close>

fun join :: "pystr \<Rightarrow> pystr list \<Rightarrow> pystr" where
  "join sep [] = []"
| "join sep [w] = w"
| "join sep (w # ws) = w @ sep @ join sep ws"

text \<open>
  The loop over \<open>word_ids\<close>, with the list \<open>candidate\<close> built so far:
  \<^verbatim>\<open>
    for word_id in word_ids:
        word = vocabulary.idx2word[word_id]
        if word == "<end>": break
        elif word == "<start>": continue
        candidate.append(word)
  \<close>
\<close>

fun convert_loop :: "vocabulary \<Rightarrow> int list \<Rightarrow> pystr list \<Rightarrow> error + pystr list" where
  "convert_loop idx2word [] candidate = Inr candidate"
| "convert_loop idx2word (word_id # word_ids) candidate =
     (case idx2word word_id of
        None \<Rightarrow> Inl LookupError
      | Some word \<Rightarrow>
          if word = str ''<end>'' then Inr candidate
          else if word = str ''<start>'' then convert_loop idx2word word_ids candidate
          else convert_loop idx2word word_ids (candidate @ [word]))"

definition convert_idx2sentence :: "int list \<Rightarrow> vocabulary \<Rightarrow> bool \<Rightarrow> error + caption" where
  "convert_idx2sentence word_ids idx2word zh =
     (case convert_loop idx2word word_ids [] of
        Inl e \<Rightarrow> Inl e
      | Inr candidate \<Rightarrow>
          Inr (if \<not> zh then Sentence (join (str '' '') candidate) else Tokens candidate))"

text \<open>
  The \<open>caption\<close> entry of a prediction row in \<open>BaseRunner.evaluate\<close>:
  \<^verbatim>\<open>"caption": "".join(pred[0]) if zh else pred[0]\<close>.
  Joining a string with the empty separator gives the string back.
\<close>

definition pred_caption :: "bool \<Rightarrow> caption \<Rightarrow> caption" where
  "pred_caption zh pred0 =
     (if zh then (case pred0 of Tokens ws \<Rightarrow> Sentence (join [] ws) | Sentence s \<Rightarrow> Sentence s)
      else pred0)"

text \<open>
  What \<open>BaseRunner.evaluate\<close> stores as the caption of a key: the sequence is decoded by
  \<open>_convert_idx2sentence\<close> (in \<open>_sample\<close>) and the prediction row is built from the result.
\<close>

definition evaluate_caption :: "int list \<Rightarrow> vocabulary \<Rightarrow> bool \<Rightarrow> error + caption" where
  "evaluate_caption seq idx2word zh =
     (case convert_idx2sentence seq idx2word zh of
        Inl e \<Rightarrow> Inl e
      | Inr pred0 \<Rightarrow> Inr (pred_caption zh pred0))"

text \<open>The ids of an input that the loop reads: those before the first end sentinel.\<close>

definition before_end :: "vocabulary \<Rightarrow> int list \<Rightarrow> int list" where
  "before_end idx2word word_ids = takeWhile (\<lambda>i. idx2word i \<noteq> Some (str ''<end>'')) word_ids"

section \<open>Double-precision arithmetic\<close>

text \<open>
  A Python \<open>float\<close> is an IEEE 754 double: every arithmetic operation returns the double
  nearest to the exact result, ties going to the even significand. \<open>fl x\<close> is that double
  for the exact value \<open>x\<close>: the magnitude is scaled by powers of two until its integer
  part has 53 bits (the exponent stops at \<open>-1074\<close>, the spacing of the subnormal doubles),
  the scaled value is rounded to an integer, and the scaling is undone. Values beyond the
  largest double are outside the model.
\<close>

definition round_half_even :: "real \<Rightarrow> int" where
  "round_half_even x =
     (let n = \<lfloor>x\<rfloor>; r = x - of_int n
      in if r < 1 / 2 then n else if 1 / 2 < r then n + 1 else if even n then n else n + 1)"

function scale_up :: "real \<Rightarrow> int \<Rightarrow> real \<times> int" where
  "scale_up m e = (if m < 2 ^ 52 \<and> - 1074 < e then scale_up (2 * m) (e - 1) else (m, e))"
  by pat_completeness auto
termination
  by (relation "measure (\<lambda>(m, e). nat (e + 1074))") auto

function scale_down :: "real \<Rightarrow> int \<Rightarrow> real \<times> int" where
  "scale_down m e = (if 2 ^ 53 \<le> m \<and> e < 971 then scale_down (m / 2) (e + 1) else (m, e))"
  by pat_completeness auto
termination
  by (relation "measure (\<lambda>(m, e). nat (971 - e))") auto

declare scale_up.simps [simp del] scale_down.simps [simp del]

definition pow2 :: "int \<Rightarrow> real" where
  "pow2 e = (if 0 \<le> e then 2 ^ nat e else 1 / 2 ^ nat (- e))"

definition fl :: "real \<Rightarrow> real" where
  "fl x =
     (let (m, e) = scale_up \<bar>x\<bar> 0;
          (m, e) = scale_down m e
      in sgn x * of_int (round_half_even m) * pow2 e)"

text \<open>\<open>int(x)\<close> of a float truncates towards zero.\<close>

definition py_int :: "real \<Rightarrow> int" where
  "py_int x = (if 0 \<le> x then \<lfloor>x\<rfloor> else \<lceil>x\<rceil>)"

section \<open>The random train/validation split\<close>

text \<open>
  \<open>numpy\<close> is not part of the repository. Its generator is a parameter: \<open>permutation g n\<close>
  is what \<open>np.random.permutation(n)\<close> returns in the generator state \<open>g\<close>, with the state
  it leaves behind; numpy returns a rearrangement of \<open>0, ..., n - 1\<close>, which is what
  \<open>is_permutation\<close> says. \<open>np.random.choice(a, sz, replace=False)\<close> checks its arguments and
  returns the first \<open>sz\<close> entries of \<open>permutation(a)\<close>.
\<close>

definition is_permutation :: "nat list \<Rightarrow> nat \<Rightarrow> bool" where
  "is_permutation p n = (distinct p \<and> set p = {0..<n})"

definition np_random_choice ::
  "('g \<Rightarrow> nat \<Rightarrow> nat list \<times> 'g) \<Rightarrow> 'g \<Rightarrow> int \<Rightarrow> int \<Rightarrow> error + (nat list \<times> 'g)" where
  "np_random_choice permutation g pop_size sz =
     (if pop_size \<le> 0 \<and> sz \<noteq> 0 then Inl ValueError
      else if pop_size < sz then Inl ValueError
      else if sz < 0 then Inl ValueError
      else (case permutation g (nat pop_size) of (p, g') \<Rightarrow> Inr (take (nat sz) p, g')))"

text \<open>
  \<open>Runner._get_dataloaders\<close> (run\_structure.py), the branch without a \<open>train\<close> entry:
  \<^verbatim>\<open>
    val_size = int(len(caption_info) * (1 - data_config["train_percent"] / 100.))
    val_audio_idxs = np.random.choice(len(caption_info), val_size, replace=False)
    train_audio_idxs = [idx for idx in range(len(caption_info)) if idx not in val_audio_idxs]
  \<close>
  The percentage of the configuration is an int or a float; \<open>n\<close> is \<open>len(caption_info)\<close>.
\<close>

definition val_size :: "nat \<Rightarrow> real \<Rightarrow> int" where
  "val_size n train_percent = py_int (fl (fl (real n) * fl (1 - fl (fl train_percent / 100))))"

definition Runner_get_dataloaders ::
  "('g \<Rightarrow> nat \<Rightarrow> nat list \<times> 'g) \<Rightarrow> 'g \<Rightarrow> nat \<Rightarrow> real \<Rightarrow> error + ((nat list \<times> nat list) \<times> 'g)" where
  "Runner_get_dataloaders permutation g n train_percent =
     (case np_random_choice permutation g (int n) (val_size n train_percent) of
        Inl e \<Rightarrow> Inl e
      | Inr (val_audio_idxs, g') \<Rightarrow>
          Inr ((filter (\<lambda>idx. idx \<notin> set val_audio_idxs) [0..<n], val_audio_idxs), g'))"

text \<open>The size the same expression has in exact arithmetic.\<close>

definition exact_val_size :: "nat \<Rightarrow> real \<Rightarrow> int" where
  "exact_val_size n train_percent = \<lfloor>real n * (1 - train_percent / 100)\<rfloor>"

text \<open>
  \<open>BaseRunner._get_dataloaders\<close> (base\_runner.py) samples the training keys instead:
  \<^verbatim>\<open>
    train_keys = np.random.choice(caption_df["key"].unique(),
        int(len(caption_df["key"].unique()) * (config["train_percent"] / 100.)), replace=False)
    train_df = caption_df[caption_df["key"].apply(lambda x: x in train_keys)]
    val_df = caption_df[~caption_df.index.isin(train_df.index)]
  \<close>
  The frame is the list of the keys of its rows, a row's index its position; \<open>unique\<close> keeps
  the first occurrence of each key.
\<close>

definition unique :: "'k list \<Rightarrow> 'k list" where
  "unique ks = rev (remdups (rev ks))"

definition train_size :: "nat \<Rightarrow> real \<Rightarrow> int" where
  "train_size n train_percent = py_int (fl (fl (real n) * fl (fl train_percent / 100)))"

definition BaseRunner_get_dataloaders ::
  "('g \<Rightarrow> nat \<Rightarrow> nat list \<times> 'g) \<Rightarrow> 'g \<Rightarrow> 'k list \<Rightarrow> real \<Rightarrow> error + ((nat list \<times> nat list) \<times> 'g)" where
  "BaseRunner_get_dataloaders permutation g keys train_percent =
     (let uniq = unique keys
      in case np_random_choice permutation g (int (length uniq))
                (train_size (length uniq) train_percent) of
           Inl e \<Rightarrow> Inl e
         | Inr (idx, g') \<Rightarrow>
             (let train_keys = map (\<lambda>i. uniq ! i) idx;
                  train_index = filter (\<lambda>i. keys ! i \<in> set train_keys) [0..<length keys];
                  val_index = filter (\<lambda>i. i \<notin> set train_index) [0..<length keys]
              in Inr ((train_index, val_index), g')))"





section \<open>Scheduled sampling (\<open>update_ss_ratio\<close>)\<close>

text \<open>
  The handler runs at every \<open>ITERATION_STARTED\<close> of the trainer:
  \<^verbatim>\<open>
    num_iter = len(train_dataloader)
    num_epoch = conf["epochs"]
    total_iters = num_iter * num_epoch
    mode = conf["ss_args"]["ss_mode"]
    if mode == "exponential":
        conf["ss_args"]["ss_ratio"] *= 0.01 ** (1.0 / total_iters)
    elif mode == "linear":
        final_ss = conf["ss_args"]["final_ss_ratio"]
        conf["ss_args"]["ss_ratio"] -= (1.0 - final_ss) / total_iters
  \<close>
  The arithmetic is parametrised by the rounding \<open>rnd\<close> applied to the result of every
  operation: the identity gives the exact arithmetic of the reals, \<open>fl\<close> the doubles of the
  code for \<open>+\<close>, \<open>-\<close>, \<open>*\<close> and \<open>/\<close> (the power of the C library is only close to the
  nearest double, so nothing is stated about the exponential mode under \<open>fl\<close>).
\<close>

record ss_args =
  ss_ratio :: real
  ss_mode :: string
  final_ss_ratio :: real

definition update_ss_ratio ::
  "(real \<Rightarrow> real) \<Rightarrow> nat \<Rightarrow> nat \<Rightarrow> ss_args \<Rightarrow> error + ss_args" where
  "update_ss_ratio rnd num_iter num_epoch a =
     (let total_iters = num_iter * num_epoch
      in if ss_mode a = ''exponential'' then
           (if total_iters = 0 then Inl ZeroDivisionError
            else Inr (a\<lparr>ss_ratio :=
                   rnd (ss_ratio a * rnd (rnd (1 / 100) powr rnd (1 / real total_iters)))\<rparr>))
         else if ss_mode a = ''linear'' then
           (if total_iters = 0 then Inl ZeroDivisionError
            else Inr (a\<lparr>ss_ratio :=
                   rnd (ss_ratio a - rnd (rnd (1 - final_ss_ratio a) / real total_iters))\<rparr>))
         else Inr a)"

text \<open>The handler fired at the start of \<open>k\<close> consecutive iterations.\<close>

fun ss_iterations ::
  "(real \<Rightarrow> real) \<Rightarrow> nat \<Rightarrow> nat \<Rightarrow> nat \<Rightarrow> ss_args \<Rightarrow> error + ss_args" where
  "ss_iterations rnd num_iter num_epoch 0 a = Inr a"
| "ss_iterations rnd num_iter num_epoch (Suc k) a =
     (case update_ss_ratio rnd num_iter num_epoch a of
        Inl e \<Rightarrow> Inl e
      | Inr a' \<Rightarrow> ss_iterations rnd num_iter num_epoch k a')"

section \<open>Checkpoints (\<open>save_model\<close>)\<close>

text \<open>
  Modelled from the spec: \<open>train_util.criterion_improver\<close>, which \<open>Runner.train\<close> calls as
  \<open>crtrn_imprvd = train_util.criterion_improver(conf["improvecriterion"])\<close> and whose
  module is not among the sources. The specification describes what it decides: the
  current score improves when it is strictly better, in the configured direction (max or
  min), than the best score seen so far in the run, so it improves over all previously
  seen scores; with no score seen yet every score improves. The closure keeps the best
  score seen.
\<close>

datatype direction = Maximize | Minimize

definition better :: "direction \<Rightarrow> real \<Rightarrow> real \<Rightarrow> bool" where
  "better dir x y = (case dir of Maximize \<Rightarrow> y < x | Minimize \<Rightarrow> x < y)"

record improver =
  improvecriterion :: direction
  best_value :: "real option"

definition criterion_improver :: "direction \<Rightarrow> improver" where
  "criterion_improver dir = \<lparr>improvecriterion = dir, best_value = None\<rparr>"

definition crtrn_imprvd :: "real \<Rightarrow> improver \<Rightarrow> bool \<times> improver" where
  "crtrn_imprvd x c =
     (case best_value c of
        None \<Rightarrow> (True, c\<lparr>best_value := Some x\<rparr>)
      | Some b \<Rightarrow>
          if better (improvecriterion c) x b then (True, c\<lparr>best_value := Some x\<rparr>)
          else (False, c))"

text \<open>
  The handler \<open>save_model\<close> of the evaluator's \<open>EPOCH_COMPLETED\<close>:
  \<^verbatim>\<open>
    dump = {
        "model": model.state_dict() if not conf["distributed"] else model.module.state_dict(),
        "optimizer": optimizer.state_dict(),
        "lr_scheduler": scheduler.state_dict(),
        "vocabulary": vocabulary.idx2word,
        "structure_vocabulary": structure_vocabulary.idx2word
    }
    if crtrn_imprvd(engine.state.metrics["score"]):
        torch.save(dump, outputdir / "best.pth")
    torch.save(dump, outputdir / "last.pth")
  \<close>
  The state of the training at the end of an evaluation epoch is a record of what the
  handler reads; \<open>model_state\<close> is the state of the model itself, which is
  \<open>model.state_dict()\<close>, or \<open>model.module.state_dict()\<close> under the distributed wrapper. The
  effect of the handler is the list of the \<open>torch.save\<close> calls it makes.
\<close>

record ('m, 'o, 's) training =
  model_state :: 'm
  optimizer_state :: 'o
  scheduler_state :: 's
  idx2word :: vocabulary
  structure_idx2word :: vocabulary
  score :: real

record ('m, 'o, 's) dump =
  dump_model :: 'm
  dump_optimizer :: 'o
  dump_lr_scheduler :: 's
  dump_vocabulary :: vocabulary
  dump_structure_vocabulary :: vocabulary

definition make_dump :: "('m, 'o, 's) training \<Rightarrow> ('m, 'o, 's) dump" where
  "make_dump t =
     \<lparr>dump_model = model_state t, dump_optimizer = optimizer_state t,
      dump_lr_scheduler = scheduler_state t, dump_vocabulary = idx2word t,
      dump_structure_vocabulary = structure_idx2word t\<rparr>"

definition save_model ::
  "('m, 'o, 's) training \<Rightarrow> improver \<Rightarrow> (string \<times> ('m, 'o, 's) dump) list \<times> improver" where
  "save_model t c =
     (let dump = make_dump t;
          (improved, c') = crtrn_imprvd (score t) c
      in ((if improved then [(''best.pth'', dump)] else []) @ [(''last.pth'', dump)], c'))"

text \<open>The improver after the evaluation epochs of a run so far, oldest first.\<close>

fun run_epochs :: "('m, 'o, 's) training list \<Rightarrow> improver \<Rightarrow> improver" where
  "run_epochs [] c = c"
| "run_epochs (t # ts) c = run_epochs ts (snd (save_model t c))"

section \<open>The score report of \<open>BaseRunner.evaluate\<close>\<close>

text \<open>
  The scorers are libraries outside the repository. What each of them returns for the
  predictions at hand is a field of \<open>scorers\<close>: a score, or the exception it raises (building
  the scorer included: a scorer that needs an external tool fails there). \<open>Bleu\<close> returns a
  list of scores. \<open>sentence_bert_embeds\<close> is the outcome with the reference embeddings
  loaded from \<open>caption_embedding_path\<close>, \<open>sentence_bert\<close> the one with the references.

  A line of the report is its label and the score it prints. A run of the scoring either
  completes with the lines written, or is cut by an exception after the lines written until
  then: the function has no \<open>try\<close>, so an exception leaves it at once.
\<close>

record scorers =
  bleu :: "error + real list"
  rouge :: "error + real"
  cider :: "error + real"
  meteor :: "error + real"
  spice :: "error + real"
  sentence_bert :: "error + real"
  sentence_bert_embeds :: "error + real"
  diversity :: "error + real"

type_synonym report = "(string \<times> real) list"

datatype 'w outcome = Completed "'w list" | Raised error "'w list"

definition and_then :: "'w outcome \<Rightarrow> ('w list \<Rightarrow> 'w outcome) \<Rightarrow> 'w outcome" where
  "and_then r f = (case r of Completed ws \<Rightarrow> f ws | Raised e ws \<Rightarrow> Raised e ws)"

text \<open>
  \<^verbatim>\<open>
    scorer = Rouge(zh=zh)
    score, scores = scorer.compute_score(key2refs, key2pred)
    f.write("ROUGE: {:6.3f}\n".format(score))
  \<close>
\<close>

definition write_score :: "string \<Rightarrow> error + real \<Rightarrow> report \<Rightarrow> (string \<times> real) outcome" where
  "write_score label result f =
     (case result of Inl e \<Rightarrow> Raised e f | Inr sc \<Rightarrow> Completed (f @ [(label, sc)]))"

text \<open>The decimal digits of a number, for \<open>"Bleu-{}".format(n + 1)\<close>.\<close>

fun decimal :: "nat \<Rightarrow> string" where
  "decimal n =
     (if n < 10 then [char_of (48 + n)] else decimal (n div 10) @ [char_of (48 + n mod 10)])"

declare decimal.simps [simp del]

text \<open>
  \<^verbatim>\<open>
    scorer = Bleu(n=4, zh=zh)
    score, scores = scorer.compute_score(key2refs, key2pred)
    for n in range(4):
        f.write("Bleu-{}: {:6.3f}\n".format(n + 1, score[n]))
  \<close>
\<close>

fun write_bleu :: "nat list \<Rightarrow> real list \<Rightarrow> report \<Rightarrow> (string \<times> real) outcome" where
  "write_bleu [] sc f = Completed f"
| "write_bleu (n # ns) sc f =
     (if n < length sc then write_bleu ns sc (f @ [(''Bleu-'' @ decimal (n + 1), sc ! n)])
      else Raised LookupError f)"

text \<open>
  The scoring part of \<open>evaluate\<close>, from the opening of the report on; \<open>embeds\<close> says that
  \<open>caption_embedding_path\<close> is not \<open>None\<close>.
\<close>

definition evaluate_scores :: "scorers \<Rightarrow> bool \<Rightarrow> bool \<Rightarrow> (string \<times> real) outcome" where
  "evaluate_scores s zh embeds =
     and_then (case bleu s of Inl e \<Rightarrow> Raised e [] | Inr sc \<Rightarrow> write_bleu [0..<4] sc [])
    (\<lambda>f. and_then (write_score ''ROUGE'' (rouge s) f)
    (\<lambda>f. and_then (write_score ''CIDEr'' (cider s) f)
    (\<lambda>f. and_then
            (if \<not> zh
             then and_then (write_score ''Meteor'' (meteor s) f) (write_score ''Spice'' (spice s))
             else Completed f)
    (\<lambda>f. and_then
            (write_score ''SentenceBert''
               (if embeds then sentence_bert_embeds s else sentence_bert s) f)
    (write_score ''Diversity'' (diversity s))))))"

text \<open>The labels of a report with a line for every metric that applies.\<close>

definition report_labels :: "bool \<Rightarrow> string list" where
  "report_labels zh =
     [''Bleu-1'', ''Bleu-2'', ''Bleu-3'', ''Bleu-4'', ''ROUGE'', ''CIDEr''] @
     (if zh then [] else [''Meteor'', ''Spice'']) @ [''SentenceBert'', ''Diversity'']"

text \<open>The outcomes of the scorers that a run with these settings calls.\<close>

definition called :: "scorers \<Rightarrow> bool \<Rightarrow> bool \<Rightarrow> (error + real) list" where
  "called s zh embeds =
     [rouge s, cider s] @ (if zh then [] else [meteor s, spice s]) @
     [if embeds then sentence_bert_embeds s else sentence_bert s, diversity s]"

definition all_succeed :: "scorers \<Rightarrow> bool \<Rightarrow> bool \<Rightarrow> bool" where
  "all_succeed s zh embeds =
     ((case bleu s of Inl e \<Rightarrow> False | Inr sc \<Rightarrow> 4 \<le> length sc) \<and>
      list_all (\<lambda>r. \<not> isl r) (called s zh embeds))"

text \<open>
  The scorers after \<open>Bleu\<close> in the order \<open>evaluate\<close> calls them, each with the label of its line
  and with its outcome.
\<close>

definition scalar_steps :: "scorers \<Rightarrow> bool \<Rightarrow> bool \<Rightarrow> (string \<times> (error + real)) list" where
  "scalar_steps s zh embeds =
     [(''ROUGE'', rouge s), (''CIDEr'', cider s)] @
     (if zh then [] else [(''Meteor'', meteor s), (''Spice'', spice s)]) @
     [(''SentenceBert'', if embeds then sentence_bert_embeds s else sentence_bert s),
      (''Diversity'', diversity s)]"

text \<open>Calling the scorers of a list one after the other, each writing its line.\<close>

fun run_steps :: "(string \<times> (error + real)) list \<Rightarrow> report \<Rightarrow> (string \<times> real) outcome" where
  "run_steps [] f = Completed f"
| "run_steps ((label, result) # steps) f = and_then (write_score label result f) (run_steps steps)"

section \<open>Stepping the learning-rate scheduler (\<open>update_lr\<close>)\<close>

text \<open>
  \<^verbatim>\<open>
    def update_lr(engine, metric=None):
        if scheduler.__class__.__name__ == "ReduceLROnPlateau":
            assert metric is not None, "need validation metric for ReduceLROnPlateau"
            val_result = engine.state.metrics[metric]
            scheduler.step(val_result)
        else:
            scheduler.step()
  \<close>
  The scheduler is known by the name of its class; the effect of the handler is the call of
  \<open>step\<close> it makes, with or without a value. \<open>metrics\<close> is \<open>engine.state.metrics\<close>.
\<close>

datatype step_call = Step | Step_with real

definition update_lr :: "string \<Rightarrow> (string \<rightharpoonup> real) \<Rightarrow> string option \<Rightarrow> error + step_call" where
  "update_lr scheduler_class metrics metric =
     (if scheduler_class = ''ReduceLROnPlateau'' then
        (case metric of
           None \<Rightarrow> Inl AssertionError
         | Some m \<Rightarrow>
             (case metrics m of
                None \<Rightarrow> Inl LookupError
              | Some val_result \<Rightarrow> Inr (Step_with val_result)))
      else Inr Step)"

text \<open>
  The handler is attached to one event of one of the two engines:
  \<^verbatim>\<open>
    if scheduler.__class__.__name__ in ["StepLR", "ReduceLROnPlateau", "ExponentialLR", "MultiStepLR"]:
        evaluator.add_event_handler(Events.EPOCH_COMPLETED, update_lr, "score")
    else:
        trainer.add_event_handler(Events.ITERATION_STARTED, update_lr)
  \<close>
\<close>

datatype engine = Trainer | Evaluator

datatype event = ITERATION_STARTED | ITERATION_COMPLETED | EPOCH_STARTED | EPOCH_COMPLETED

definition epoch_schedulers :: "string list" where
  "epoch_schedulers = [''StepLR'', ''ReduceLROnPlateau'', ''ExponentialLR'', ''MultiStepLR'']"

definition add_update_lr :: "string \<Rightarrow> (engine \<times> event) \<times> string option" where
  "add_update_lr scheduler_class =
     (if scheduler_class \<in> set epoch_schedulers
      then ((Evaluator, EPOCH_COMPLETED), Some ''score'')
      else ((Trainer, ITERATION_STARTED), None))"

text \<open>The calls of \<open>step\<close> made when an engine fires an event.\<close>

definition fire_update_lr ::
  "string \<Rightarrow> (string \<rightharpoonup> real) \<Rightarrow> engine \<times> event \<Rightarrow> error + step_call list" where
  "fire_update_lr scheduler_class metrics ev =
     (case add_update_lr scheduler_class of
        (registered, metric) \<Rightarrow>
          if ev = registered
          then (case update_lr scheduler_class metrics metric of
                  Inl e \<Rightarrow> Inl e
                | Inr call \<Rightarrow> Inr [call])
          else Inr [])"

section \<open>\<open>BaseRunner.sample\<close>\<close>

text \<open>
  What \<open>sample\<close> reads from outside is its environment: whether \<open>tableprint\<close> can be
  imported, what \<open>torch.load\<close> returns for \<open>saved.pth\<close> (a dictionary, of which the keys
  \<open>model\<close>, \<open>scaler\<close> and \<open>config\<close> are read) and for the vocabulary file named by the
  configuration, and what building the dataset and its loader gives: the batches, each of
  them the keys with the sequences \<open>_forward\<close> returns for it, or the exception it raises.
  A key that a dictionary lacks is a \<open>None\<close> field.

  What is stored under \<open>model\<close> is a module, which has \<open>to\<close> and \<open>max_length\<close>, or a state
  dictionary, the form \<open>evaluate\<close> loads with \<open>load_state_dict\<close>, which has no \<open>to\<close>. What is
  stored under \<open>scaler\<close> has a \<open>transform\<close> or has none. Reading an attribute that an object
  lacks raises \<open>AttributeError\<close>.
\<close>

record model_obj =
  model_max_length :: int

datatype model_value = Module model_obj | State_dict

datatype 's scaler_value = Scaler 's | No_transform

record config =
  config_vocab_file :: "string option"
  config_zh :: "bool option"

record 's saved =
  saved_model :: "model_value option"
  saved_scaler :: "'s scaler_value option"
  saved_config :: "config option"

record 's env =
  tableprint :: bool
  saved_pth :: "error + 's saved"
  vocab_files :: "string \<Rightarrow> error + vocabulary"
  dataloader :: "error + (error + (pystr \<times> int list) list) list"

text \<open>What is written to the output file: the header, the rows, the bottom, the count.\<close>

datatype out_line =
    Header int
  | Newline
  | Row pystr pystr int
  | Bottom int
  | Unique_sentences nat

text \<open>
  A local variable of a function is unbound until an assignment of the function binds it;
  reading it before raises \<open>UnboundLocalError\<close>.
\<close>

definition read_local :: "'a option \<Rightarrow> error + 'a" where
  "read_local x = (case x of None \<Rightarrow> Inl UnboundLocalError | Some v \<Rightarrow> Inr v)"

text \<open>
  The loop of \<open>_sample\<close> over the sequences of a batch, with the local \<open>sentence\<close> and the
  lines written so far:
  \<^verbatim>\<open>
    for idx, seq in enumerate(seqs):
        caption = self._convert_idx2sentence(seq, vocabulary, zh=zh)
        if isinstance(caption, list):
            sentence = " ".join(caption)
        writer.write(tp.row([keys[idx], sentence], width=[...]) + "\n")
        sentences.append(sentence)
  \<close>
\<close>

fun sample_seqs ::
  "vocabulary \<Rightarrow> bool \<Rightarrow> int \<Rightarrow> (pystr \<times> int list) list \<Rightarrow> pystr option \<Rightarrow> out_line list \<Rightarrow>
     out_line outcome" where
  "sample_seqs vocabulary zh width [] sentence w = Completed w"
| "sample_seqs vocabulary zh width ((key, seq) # seqs) sentence w =
     (case convert_idx2sentence seq vocabulary zh of
        Inl e \<Rightarrow> Raised e w
      | Inr caption \<Rightarrow>
          (let sentence = (case caption of
                             Tokens ws \<Rightarrow> Some (join (str '' '') ws)
                           | Sentence s \<Rightarrow> sentence)
           in case read_local sentence of
                Inl e \<Rightarrow> Raised e w
              | Inr s \<Rightarrow> sample_seqs vocabulary zh width seqs (Some s) (w @ [Row key s width])))"

text \<open>
  \<open>_sample\<close> is called once for every batch, so \<open>sentence\<close> is unbound at the start of each.
  The call \<open>self._forward(model, batch, mode="sample", max_length=max_length, **kwargs)\<close>
  names \<open>max_length\<close> twice when \<open>kwargs\<close> has it, which is a \<open>TypeError\<close>.
\<close>

fun sample_batches ::
  "vocabulary \<Rightarrow> bool \<Rightarrow> int \<Rightarrow> (string \<rightharpoonup> int) \<Rightarrow> (error + (pystr \<times> int list) list) list \<Rightarrow>
     out_line list \<Rightarrow> out_line outcome" where
  "sample_batches vocabulary zh width kwargs [] w = Completed w"
| "sample_batches vocabulary zh width kwargs (batch # batches) w =
     (if kwargs ''max_length'' \<noteq> None then Raised TypeError w
      else case batch of
             Inl e \<Rightarrow> Raised e w
           | Inr seqs \<Rightarrow>
               and_then (sample_seqs vocabulary zh width seqs None w)
                 (sample_batches vocabulary zh width kwargs batches))"

fun row_sentences :: "out_line list \<Rightarrow> pystr list" where
  "row_sentences [] = []"
| "row_sentences (Row key s width # w) = s # row_sentences w"
| "row_sentences (l # w) = row_sentences w"

text \<open>
  The function from the test of \<open>max_length\<close> on, given the value read from the local:
  \<^verbatim>\<open>
    if max_length is None:
        max_length = model.max_length
    width_length = max_length * 4
    ...
    writer.write(tp.header([...], width=[len("InputUtterance"), width_length]))
    writer.write('\n')
    ...
    sample_engine.run(dataloader)
    writer.write(tp.bottom(2, width=[len("InputUtterance"), width_length]) + "\n")
    writer.write("Unique sentence number: {}\n".format(len(set(sentences))))
  \<close>
\<close>

definition sample_write ::
  "model_obj \<Rightarrow> vocabulary \<Rightarrow> bool \<Rightarrow> (error + (pystr \<times> int list) list) list \<Rightarrow>
     (string \<rightharpoonup> int) \<Rightarrow> int option \<Rightarrow> out_line outcome" where
  "sample_write model vocabulary zh batches kwargs max_length_read =
     (let max_length = (case max_length_read of None \<Rightarrow> model_max_length model | Some n \<Rightarrow> n);
          width_length = max_length * 4
      in and_then (sample_batches vocabulary zh width_length kwargs batches
                     [Header width_length, Newline])
           (\<lambda>w. Completed (w @ [Bottom width_length,
                                 Unique_sentences (card (set (row_sentences w)))])))"

text \<open>
  \<open>sample\<close> itself, up to the test of \<open>max_length\<close>:
  \<^verbatim>\<open>
    import tableprint as tp
    dump = torch.load(os.path.join(experiment_path, "saved.pth"), map_location="cpu")
    model = dump["model"]
    scaler = dump["scaler"]
    config = dump["config"]
    vocabulary = torch.load(config["vocab_file"])
    zh = config["zh"]
    model = model.to(self.device)
    dataset = SJTUDatasetEval(feature=feature_file, eval_scp=predict_scp,
                              transform=scaler.transform)
    dataloader = torch.utils.data.DataLoader(dataset, ...)
    if max_length is None:
        max_length = model.max_length
  \<close>
  \<open>max_length\<close> is a local of the function, because the function assigns it; it is not a
  parameter, the keyword arguments stay in \<open>kwargs\<close>, and no statement before the test
  assigns it, so the local is unbound when the test reads it.
\<close>

definition sample :: "'s env \<Rightarrow> (string \<rightharpoonup> int) \<Rightarrow> out_line outcome" where
  "sample env kwargs =
     (if \<not> tableprint env then Raised ImportError []
      else case saved_pth env of Inl e \<Rightarrow> Raised e [] | Inr dump \<Rightarrow>
       (case saved_model dump of None \<Rightarrow> Raised LookupError [] | Some model_value \<Rightarrow>
       (case saved_scaler dump of None \<Rightarrow> Raised LookupError [] | Some scaler \<Rightarrow>
       (case saved_config dump of None \<Rightarrow> Raised LookupError [] | Some config \<Rightarrow>
       (case config_vocab_file config of None \<Rightarrow> Raised LookupError [] | Some vocab_file \<Rightarrow>
       (case vocab_files env vocab_file of Inl e \<Rightarrow> Raised e [] | Inr vocabulary \<Rightarrow>
       (case config_zh config of None \<Rightarrow> Raised LookupError [] | Some zh \<Rightarrow>
       (case model_value of State_dict \<Rightarrow> Raised AttributeError [] | Module model \<Rightarrow>
       (case scaler of No_transform \<Rightarrow> Raised AttributeError [] | Scaler transform \<Rightarrow>
       (case dataloader env of Inl e \<Rightarrow> Raised e [] | Inr batches \<Rightarrow>
       (let max_length = (None :: int option option)
        in case read_local max_length of
             Inl e \<Rightarrow> Raised e []
           | Inr max_length_read \<Rightarrow>
               sample_write model vocabulary zh batches kwargs max_length_read)))))))))))"

text \<open>
  Every step of \<open>sample\<close> before the test of \<open>max_length\<close> succeeds: the import, the two
  loads, the lookups in the checkpoint and its configuration, \<open>model.to\<close> on a module, the
  read of \<open>scaler.transform\<close>, and the construction of the dataset and its loader.
\<close>

definition loads_succeed :: "'s env \<Rightarrow> bool" where
  "loads_succeed env =
     (tableprint env \<and>
      (case saved_pth env of
         Inl e \<Rightarrow> False
       | Inr dump \<Rightarrow>
           (case saved_model dump of Some (Module model) \<Rightarrow> True | _ \<Rightarrow> False) \<and>
           (case saved_scaler dump of Some (Scaler transform) \<Rightarrow> True | _ \<Rightarrow> False) \<and>
           (case saved_config dump of
              None \<Rightarrow> False
            | Some config \<Rightarrow>
                config_zh config \<noteq> None \<and>
                (case config_vocab_file config of
                   None \<Rightarrow> False
                 | Some vocab_file \<Rightarrow> \<not> isl (vocab_files env vocab_file)))) \<and>
      \<not> isl (dataloader env))"

section \<open>Properties of decoding\<close>

lemma convert_loop_before_end:
  "convert_loop v ids cand = convert_loop v (before_end v ids) cand"
  by (induction v ids cand rule: convert_loop.induct)
     (auto simp: before_end_def split: option.splits)

lemma convert_loop_result:
  "convert_loop v ids cand = Inr out \<Longrightarrow>
     out = cand @ filter (\<lambda>w. w \<noteq> str ''<start>'') (map (\<lambda>i. the (v i)) (before_end v ids))"
  by (induction v ids cand rule: convert_loop.induct)
     (auto simp: before_end_def split: option.splits if_splits)

lemma before_end_no_end:
  "w \<in> set (map (\<lambda>i. the (v i)) (before_end v ids)) \<Longrightarrow> convert_loop v ids cand = Inr out \<Longrightarrow>
     w \<noteq> str ''<end>''"
  by (induction v ids cand rule: convert_loop.induct)
     (auto simp: before_end_def split: option.splits if_splits)

lemma convert_loop_total:
  "\<forall>i \<in> set (before_end v ids). v i \<noteq> None \<Longrightarrow> \<exists>out. convert_loop v ids cand = Inr out"
  by (induction v ids cand rule: convert_loop.induct)
     (auto simp: before_end_def split: option.splits if_splits)

lemma join_empty_sep: "join [] ws = concat ws"
  by (induction "[] :: pystr" ws rule: join.induct) simp_all

lemma convert_loop_tokens:
  assumes r: "convert_loop v ids [] = Inr cand"
  shows "cand = filter (\<lambda>w. w \<noteq> str ''<start>'') (map (\<lambda>i. the (v i)) (before_end v ids)) \<and>
         str ''<start>'' \<notin> set cand \<and> str ''<end>'' \<notin> set cand \<and> length cand \<le> length ids"
proof (intro conjI)
  from convert_loop_result [OF r]
  show c: "cand = filter (\<lambda>w. w \<noteq> str ''<start>'') (map (\<lambda>i. the (v i)) (before_end v ids))"
    by simp
  show "str ''<start>'' \<notin> set cand"
    by (subst c) simp
  show "str ''<end>'' \<notin> set cand"
  proof
    assume "str ''<end>'' \<in> set cand"
    then have "str ''<end>'' \<in> set (map (\<lambda>i. the (v i)) (before_end v ids))"
      by (subst (asm) c) simp
    from before_end_no_end [OF this r] show False by simp
  qed
  have "length cand \<le> length (before_end v ids)"
    by (subst c) (simp add: le_trans [OF length_filter_le])
  also have "\<dots> \<le> length ids"
    by (simp add: before_end_def length_takeWhile_le)
  finally show "length cand \<le> length ids" .
qed

text \<open>
  C2. Decoding reads the id sequence only up to the first id whose word is the end sentinel:
  whatever follows it has no effect on the outcome. When decoding returns, the words it
  collected (returned as they are for \<open>zh\<close>, joined by spaces otherwise) are the words of the
  ids before that point without the start sentinel, so the list holds neither sentinel and
  is no longer than the id sequence.
\<close>

theorem convert_idx2sentence_tokens:
  "convert_idx2sentence ids v zh = convert_idx2sentence (before_end v ids) v zh \<and>
   (\<forall>c. convert_idx2sentence ids v zh = Inr c \<longrightarrow>
      (\<exists>cand. c = (if zh then Tokens cand else Sentence (join (str '' '') cand)) \<and>
         cand = filter (\<lambda>w. w \<noteq> str ''<start>'') (map (\<lambda>i. the (v i)) (before_end v ids)) \<and>
         str ''<start>'' \<notin> set cand \<and> str ''<end>'' \<notin> set cand \<and>
         length cand \<le> length ids))"
proof (intro conjI allI impI)
  show "convert_idx2sentence ids v zh = convert_idx2sentence (before_end v ids) v zh"
    unfolding convert_idx2sentence_def
    by (subst convert_loop_before_end) (rule refl)
next
  fix c
  assume "convert_idx2sentence ids v zh = Inr c"
  then obtain cand where r: "convert_loop v ids [] = Inr cand"
    and c: "c = (if zh then Tokens cand else Sentence (join (str '' '') cand))"
    by (auto simp: convert_idx2sentence_def split: sum.splits)
  from c convert_loop_tokens [OF r]
  show "\<exists>cand. c = (if zh then Tokens cand else Sentence (join (str '' '') cand)) \<and>
         cand = filter (\<lambda>w. w \<noteq> str ''<start>'') (map (\<lambda>i. the (v i)) (before_end v ids)) \<and>
         str ''<start>'' \<notin> set cand \<and> str ''<end>'' \<notin> set cand \<and>
         length cand \<le> length ids"
    by blast
qed

theorem convert_idx2sentence_tokens_witness:
  "convert_idx2sentence [0, 2, 3, 1, 2, 7]
     [0 \<mapsto> str ''<start>'', 1 \<mapsto> str ''<end>'', 2 \<mapsto> str ''a'', 3 \<mapsto> str ''cat''] True =
     Inr (Tokens [str ''a'', str ''cat'']) \<and>
   str ''<start>'' \<notin> set [str ''a'', str ''cat''] \<and>
   str ''<end>'' \<notin> set [str ''a'', str ''cat''] \<and>
   length [str ''a'', str ''cat''] \<le> length [0, 2, 3, 1, 2, 7 :: int]"
proof -
  let ?v = "[0 \<mapsto> str ''<start>'', 1 \<mapsto> str ''<end>'', 2 \<mapsto> str ''a'', 3 \<mapsto> str ''cat'']"
  have h: "convert_idx2sentence [0, 2, 3, 1, 2, 7] ?v True = Inr (Tokens [str ''a'', str ''cat''])"
    by (simp add: convert_idx2sentence_def str_def)
  note t = convert_idx2sentence_tokens [of "[0, 2, 3, 1, 2, 7]" ?v True, THEN conjunct2,
      rule_format, OF h]
  from t obtain cand where
    e: "Tokens [str ''a'', str ''cat''] = (if True then Tokens cand else Sentence (join (str '' '') cand))"
    and p: "str ''<start>'' \<notin> set cand" "str ''<end>'' \<notin> set cand"
      "length cand \<le> length [0, 2, 3, 1, 2, 7 :: int]"
    by blast
  from e have "cand = [str ''a'', str ''cat'']" by simp
  with p have "str ''<start>'' \<notin> set [str ''a'', str ''cat''] \<and>
      str ''<end>'' \<notin> set [str ''a'', str ''cat''] \<and>
      length [str ''a'', str ''cat''] \<le> length [0, 2, 3, 1, 2, 7 :: int]"
    by blast
  with h show ?thesis by blast
qed

text \<open>
  C7. The caption the evaluation stores for a decoded list of words is the concatenation of
  the words when \<open>zh\<close> is set, and the words joined by single spaces otherwise.
\<close>

theorem decoded_sentence_joining:
  "convert_loop v ids [] = Inr ws \<Longrightarrow>
     evaluate_caption ids v True = Inr (Sentence (concat ws)) \<and>
     evaluate_caption ids v False = Inr (Sentence (join (str '' '') ws))"
  by (simp add: evaluate_caption_def convert_idx2sentence_def pred_caption_def join_empty_sep)

text \<open>
  The two examples of the specification; the code points are those of the three words
  U+732B, U+5728 and U+7761 U+89C9.
\<close>

theorem decoded_sentence_joining_witness:
  "convert_loop [0 \<mapsto> str ''<start>'', 1 \<mapsto> str ''<end>'', 2 \<mapsto> [29483], 3 \<mapsto> [22312],
       4 \<mapsto> [30561, 35273]] [0, 2, 3, 4, 1] [] = Inr [[29483], [22312], [30561, 35273]] \<and>
   evaluate_caption [0, 2, 3, 4, 1]
     [0 \<mapsto> str ''<start>'', 1 \<mapsto> str ''<end>'', 2 \<mapsto> [29483], 3 \<mapsto> [22312],
       4 \<mapsto> [30561, 35273]] True = Inr (Sentence [29483, 22312, 30561, 35273]) \<and>
   convert_loop [0 \<mapsto> str ''<start>'', 1 \<mapsto> str ''<end>'', 2 \<mapsto> str ''a'', 3 \<mapsto> str ''cat'',
       4 \<mapsto> str ''sleeps''] [0, 2, 3, 4, 1] [] = Inr [str ''a'', str ''cat'', str ''sleeps''] \<and>
   evaluate_caption [0, 2, 3, 4, 1]
     [0 \<mapsto> str ''<start>'', 1 \<mapsto> str ''<end>'', 2 \<mapsto> str ''a'', 3 \<mapsto> str ''cat'',
       4 \<mapsto> str ''sleeps''] False = Inr (Sentence (str ''a cat sleeps''))"
proof -
  let ?zh = "[0 \<mapsto> str ''<start>'', 1 \<mapsto> str ''<end>'', 2 \<mapsto> [29483], 3 \<mapsto> [22312],
       4 \<mapsto> [30561, 35273 :: nat]]"
  let ?en = "[0 \<mapsto> str ''<start>'', 1 \<mapsto> str ''<end>'', 2 \<mapsto> str ''a'', 3 \<mapsto> str ''cat'',
       4 \<mapsto> str ''sleeps'']"
  have z: "convert_loop ?zh [0, 2, 3, 4, 1] [] = Inr [[29483], [22312], [30561, 35273]]"
    by (simp add: str_def)
  have e: "convert_loop ?en [0, 2, 3, 4, 1] [] = Inr [str ''a'', str ''cat'', str ''sleeps'']"
    by (simp add: str_def)
  show ?thesis
    using z e decoded_sentence_joining [OF z] decoded_sentence_joining [OF e]
    by (simp add: str_def)
qed

section \<open>Properties of the split\<close>

lemmas fl_eval = fl_def scale_up.simps scale_down.simps round_half_even_def pow2_def Let_def

lemma val_size_10_80: "val_size 10 80 = 1"
  by (simp add: val_size_def py_int_def fl_eval)

lemma train_size_10_80: "train_size 10 80 = 8"
  by (simp add: train_size_def py_int_def fl_eval)

lemma exact_val_size_10_80: "exact_val_size 10 80 = 2"
  by (simp add: exact_val_size_def)

lemma np_random_choice_sample:
  assumes "np_random_choice permutation g (int n) k = Inr (s, g')"
    and "is_permutation (fst (permutation g n)) n"
  shows "distinct s \<and> set s \<subseteq> {0..<n} \<and> int (length s) = k"
proof -
  obtain p where p: "permutation g n = (p, g')" and s: "s = take (nat k) p"
    and k: "0 \<le> k" "k \<le> int n"
    using assms(1)
    by (auto simp: np_random_choice_def split: if_splits prod.splits)
  from assms(2) p have d: "distinct p" and e: "set p = {0..<n}"
    by (simp_all add: is_permutation_def)
  from d e have "length p = n"
    using distinct_card [OF d] by simp
  with s k d e show ?thesis
    by (auto dest: in_set_takeD)
qed

lemma Runner_get_dataloaders_partition:
  assumes "Runner_get_dataloaders permutation g n train_percent = Inr ((train, val), g')"
    and "is_permutation (fst (permutation g n)) n"
  shows "set train \<inter> set val = {} \<and> set train \<union> set val = {0..<n} \<and>
         distinct val \<and> int (length val) = val_size n train_percent \<and>
         train = filter (\<lambda>idx. idx \<notin> set val) [0..<n]"
proof -
  from assms(1) have c: "np_random_choice permutation g (int n) (val_size n train_percent) = Inr (val, g')"
    and t: "train = filter (\<lambda>idx. idx \<notin> set val) [0..<n]"
    by (auto simp: Runner_get_dataloaders_def split: sum.splits)
  from np_random_choice_sample [OF c assms(2)] t show ?thesis
    by auto
qed

lemma BaseRunner_get_dataloaders_partition:
  assumes "BaseRunner_get_dataloaders permutation g keys train_percent = Inr ((train, val), g')"
  shows "set train \<inter> set val = {} \<and> set train \<union> set val = {0..<length keys}"
  using assms
  by (auto simp: BaseRunner_get_dataloaders_def Let_def split: sum.splits)

lemma Runner_get_dataloaders_identity_10_80:
  "Runner_get_dataloaders (\<lambda>g n. ([0..<n], g)) (0::nat) 10 80 =
     Inr (([1, 2, 3, 4, 5, 6, 7, 8, 9], [0]), 0)"
proof -
  have u: "[0..<10] = [0, 1, 2, 3, 4, 5, 6, 7, 8, 9 :: nat]"
    by code_simp
  have c: "np_random_choice (\<lambda>g n. ([0..<n], g)) (0::nat) (int 10) (val_size 10 80) = Inr ([0], 0)"
    by (simp add: np_random_choice_def val_size_10_80 u)
  show ?thesis
    unfolding Runner_get_dataloaders_def c by (simp add: u)
qed

text \<open>
  C1. With 10 records and a training percentage of 80 the code computes the size of the
  validation sample in doubles: \<open>80 / 100.\<close> is the double just above 0.8, so
  \<open>1 - 80 / 100.\<close> is 0.19999999999999996, the product with 10 is 1.9999999999999996, and
  \<open>int\<close> truncates it to 1. One validation index is drawn and nine are left for training,
  where the round-down of \<open>10 * (1 - 80 / 100)\<close> is 2.
\<close>

theorem Runner_get_dataloaders_size_10_80:
  "val_size 10 80 = 1 \<and> exact_val_size 10 80 = 2 \<and>
   Runner_get_dataloaders (\<lambda>g n. ([0..<n], g)) (0::nat) 10 80 =
     Inr (([1, 2, 3, 4, 5, 6, 7, 8, 9], [0]), 0)"
  by (simp add: val_size_10_80 exact_val_size_10_80 Runner_get_dataloaders_identity_10_80)




section \<open>Properties of scheduled sampling\<close>

text \<open>
  In exact arithmetic (\<open>rnd\<close> the identity) the ratio after \<open>k\<close> updates has a closed form in
  both modes; no update clamps it.
\<close>

lemma ss_exponential_steps:
  assumes "ss_mode a = ''exponential''" and "0 < num_iter * num_epoch"
  shows "ss_iterations (\<lambda>x. x) num_iter num_epoch k a =
         Inr (a\<lparr>ss_ratio := ss_ratio a * (1 / 100) powr (real k / real (num_iter * num_epoch))\<rparr>)"
  using assms
proof (induction k arbitrary: a)
  case 0
  then show ?case by simp
next
  case (Suc k)
  let ?N = "real (num_iter * num_epoch)"
  let ?a' = "a\<lparr>ss_ratio := ss_ratio a * (1 / 100) powr (1 / ?N)\<rparr>"
  have u: "update_ss_ratio (\<lambda>x. x) num_iter num_epoch a = Inr ?a'"
    using Suc.prems by (simp add: update_ss_ratio_def)
  have m: "ss_mode ?a' = ''exponential''"
    using Suc.prems by simp
  have p: "(1 / 100) powr (1 / ?N) * (1 / 100) powr (real k / ?N) =
           (1 / 100 :: real) powr (real (Suc k) / ?N)"
    by (simp add: powr_add [symmetric] add_divide_distrib)
  show ?case
    using Suc.IH [OF m Suc.prems(2)] p by (simp add: u mult.assoc)
qed

lemma ss_linear_steps:
  assumes "ss_mode a = ''linear''" and "0 < num_iter * num_epoch"
  shows "ss_iterations (\<lambda>x. x) num_iter num_epoch k a =
         Inr (a\<lparr>ss_ratio :=
                ss_ratio a - real k * ((1 - final_ss_ratio a) / real (num_iter * num_epoch))\<rparr>)"
  using assms
proof (induction k arbitrary: a)
  case 0
  then show ?case by simp
next
  case (Suc k)
  define d where "d = (1 - final_ss_ratio a) / real (num_iter * num_epoch)"
  let ?a' = "a\<lparr>ss_ratio := ss_ratio a - d\<rparr>"
  have u: "update_ss_ratio (\<lambda>x. x) num_iter num_epoch a = Inr ?a'"
    using Suc.prems by (simp add: update_ss_ratio_def d_def)
  have m: "ss_mode ?a' = ''linear''"
    using Suc.prems by simp
  have e: "ss_ratio a - d - real k * d = ss_ratio a - real (Suc k) * d"
    by (simp add: algebra_simps)
  have "ss_iterations (\<lambda>x. x) num_iter num_epoch (Suc k) a =
        ss_iterations (\<lambda>x. x) num_iter num_epoch k ?a'"
    by (simp add: u)
  also have "\<dots> = Inr (?a'\<lparr>ss_ratio := ss_ratio ?a' - real k * d\<rparr>)"
    using Suc.IH [OF m Suc.prems(2)] by (simp add: d_def)
  also have "\<dots> = Inr (a\<lparr>ss_ratio := ss_ratio a - real (Suc k) * d\<rparr>)"
    using e by simp
  finally show ?case
    by (simp only: d_def)
qed

text \<open>
  In the doubles of the code the closed forms hold only up to rounding: three linear updates
  with \<open>total_iters = 3\<close> from the ratio 1.0 towards the final ratio 0.0 leave \<open>2 ^ -53\<close>.
\<close>

lemma ss_linear_doubles_3:
  "ss_iterations fl 3 1 3 \<lparr>ss_ratio = 1, ss_mode = ''linear'', final_ss_ratio = 0\<rparr> =
     Inr \<lparr>ss_ratio = 1 / 9007199254740992, ss_mode = ''linear'', final_ss_ratio = 0\<rparr>"
  by (simp add: numeral_3_eq_3 update_ss_ratio_def fl_eval)

section \<open>Properties of the checkpoints\<close>

lemma save_model_direction:
  "improvecriterion (snd (save_model t c)) = improvecriterion c"
  by (simp add: save_model_def crtrn_imprvd_def Let_def split: option.splits)

lemma run_epochs_direction:
  "improvecriterion (run_epochs ts c) = improvecriterion c"
  by (induction ts arbitrary: c) (simp_all add: save_model_direction)

lemma run_epochs_append:
  "run_epochs (ts @ [t]) c = snd (save_model t (run_epochs ts c))"
  by (induction ts arbitrary: c) simp_all

lemma better_trans:
  "better dir x b \<Longrightarrow> \<not> better dir y b \<Longrightarrow> better dir x y"
  by (cases dir) (auto simp: better_def)

text \<open>
  After the epochs \<open>ts\<close> of a run, the best value is absent only when no epoch has been
  evaluated; otherwise it is one of the scores seen and none of them is better.
\<close>

lemma run_epochs_best:
  "(best_value (run_epochs ts (criterion_improver dir)) = None \<longleftrightarrow> ts = []) \<and>
   (\<forall>b. best_value (run_epochs ts (criterion_improver dir)) = Some b \<longrightarrow>
      b \<in> score ` set ts \<and> (\<forall>t \<in> set ts. \<not> better dir (score t) b))"
proof (induction ts rule: rev_induct)
  case Nil
  then show ?case by (simp add: criterion_improver_def)
next
  case (snoc t ts)
  let ?c = "run_epochs ts (criterion_improver dir)"
  have d: "improvecriterion ?c = dir"
    by (simp add: run_epochs_direction criterion_improver_def)
  show ?case
  proof (cases "best_value ?c")
    case None
    with snoc.IH have "ts = []" by simp
    with None show ?thesis
      by (simp add: save_model_def crtrn_imprvd_def criterion_improver_def better_def Let_def
          split: direction.splits)
  next
    case (Some b)
    with snoc.IH have b: "b \<in> score ` set ts" "\<forall>u \<in> set ts. \<not> better dir (score u) b"
      by simp_all
    show ?thesis
    proof (cases "better dir (score t) b")
      case True
      have "\<not> better dir (score u) (score t)" if "u \<in> set ts" for u
        using that b(2) True by (cases dir) (auto simp: better_def)
      moreover have "\<not> better dir (score t) (score t)"
        by (cases dir) (simp_all add: better_def)
      ultimately show ?thesis
        using Some True d
        by (auto simp: run_epochs_append save_model_def crtrn_imprvd_def Let_def)
    next
      case False
      with Some d b show ?thesis
        by (auto simp: run_epochs_append save_model_def crtrn_imprvd_def Let_def)
    qed
  qed
qed

text \<open>
  C4. At the end of an evaluation epoch of a run whose earlier evaluation epochs are \<open>ts\<close>,
  the handler saves \<open>best.pth\<close> exactly when the new score is strictly better, in the
  configured direction, than every score seen before in the run, and it saves \<open>last.pth\<close>
  in every case, after it. Both files hold the same bundle: the state of the model, of the
  optimizer and of the scheduler, and the id-to-token tables of the two vocabularies.
\<close>

theorem save_model_best_and_last:
  "fst (save_model t (run_epochs ts (criterion_improver dir))) =
     (if \<forall>u \<in> set ts. better dir (score t) (score u)
      then [(''best.pth'', make_dump t), (''last.pth'', make_dump t)]
      else [(''last.pth'', make_dump t)]) \<and>
   make_dump t =
     \<lparr>dump_model = model_state t, dump_optimizer = optimizer_state t,
      dump_lr_scheduler = scheduler_state t, dump_vocabulary = idx2word t,
      dump_structure_vocabulary = structure_idx2word t\<rparr>"
proof -
  let ?c = "run_epochs ts (criterion_improver dir)"
  have d: "improvecriterion ?c = dir"
    by (simp add: run_epochs_direction criterion_improver_def)
  note inv = run_epochs_best [of ts dir]
  have "fst (crtrn_imprvd (score t) ?c) \<longleftrightarrow> (\<forall>u \<in> set ts. better dir (score t) (score u))"
  proof (cases "best_value ?c")
    case None
    with inv have "ts = []" by simp
    with None show ?thesis by (simp add: crtrn_imprvd_def)
  next
    case (Some b)
    with inv have b: "b \<in> score ` set ts" "\<forall>u \<in> set ts. \<not> better dir (score u) b"
      by simp_all
    have "better dir (score t) b \<longleftrightarrow> (\<forall>u \<in> set ts. better dir (score t) (score u))"
    proof
      assume "better dir (score t) b"
      with b(2) show "\<forall>u \<in> set ts. better dir (score t) (score u)"
        by (cases dir) (auto simp: better_def)
    next
      assume "\<forall>u \<in> set ts. better dir (score t) (score u)"
      with b(1) show "better dir (score t) b" by auto
    qed
    with Some d show ?thesis by (simp add: crtrn_imprvd_def)
  qed
  then show ?thesis
    by (auto simp: save_model_def Let_def make_dump_def split: prod.splits)
qed

theorem save_model_best_and_last_witness:
  "better Maximize (3 / 4) (1 / 2) \<and> \<not> better Maximize (1 / 2) (1 / 2) \<and>
   fst (save_model \<lparr>model_state = 2 :: nat, optimizer_state = 2 :: nat, scheduler_state = 2 :: nat,
        idx2word = Map.empty, structure_idx2word = Map.empty, score = 3 / 4\<rparr>
     (run_epochs [\<lparr>model_state = 1, optimizer_state = 1, scheduler_state = 1, idx2word = Map.empty,
        structure_idx2word = Map.empty, score = 1 / 2\<rparr>] (criterion_improver Maximize))) =
     [(''best.pth'', \<lparr>dump_model = 2, dump_optimizer = 2, dump_lr_scheduler = 2,
         dump_vocabulary = Map.empty, dump_structure_vocabulary = Map.empty\<rparr>),
      (''last.pth'', \<lparr>dump_model = 2, dump_optimizer = 2, dump_lr_scheduler = 2,
         dump_vocabulary = Map.empty, dump_structure_vocabulary = Map.empty\<rparr>)] \<and>
   fst (save_model \<lparr>model_state = 2 :: nat, optimizer_state = 2 :: nat, scheduler_state = 2 :: nat,
        idx2word = Map.empty, structure_idx2word = Map.empty, score = 1 / 2\<rparr>
     (run_epochs [\<lparr>model_state = 1, optimizer_state = 1, scheduler_state = 1, idx2word = Map.empty,
        structure_idx2word = Map.empty, score = 1 / 2\<rparr>] (criterion_improver Maximize))) =
     [(''last.pth'', \<lparr>dump_model = 2, dump_optimizer = 2, dump_lr_scheduler = 2,
         dump_vocabulary = Map.empty, dump_structure_vocabulary = Map.empty\<rparr>)]"
  using
    save_model_best_and_last [of
      "\<lparr>model_state = 2 :: nat, optimizer_state = 2 :: nat, scheduler_state = 2 :: nat,
        idx2word = Map.empty, structure_idx2word = Map.empty, score = 3 / 4\<rparr>"
      "[\<lparr>model_state = 1, optimizer_state = 1, scheduler_state = 1, idx2word = Map.empty,
        structure_idx2word = Map.empty, score = 1 / 2\<rparr>]" Maximize]
    save_model_best_and_last [of
      "\<lparr>model_state = 2 :: nat, optimizer_state = 2 :: nat, scheduler_state = 2 :: nat,
        idx2word = Map.empty, structure_idx2word = Map.empty, score = 1 / 2\<rparr>"
      "[\<lparr>model_state = 1, optimizer_state = 1, scheduler_state = 1, idx2word = Map.empty,
        structure_idx2word = Map.empty, score = 1 / 2\<rparr>]" Maximize]
  by (simp add: better_def make_dump_def)

section \<open>Properties of the score report\<close>

lemma and_then_Completed [simp]: "and_then (Completed ws) f = f ws"
  by (simp add: and_then_def)

lemma and_then_Raised [simp]: "and_then (Raised e ws) f = Raised e ws"
  by (simp add: and_then_def)

lemma write_score_Inr [simp]: "write_score l (Inr x) f = Completed (f @ [(l, x)])"
  by (simp add: write_score_def)

lemma write_score_Inl [simp]: "write_score l (Inl e) f = Raised e f"
  by (simp add: write_score_def)

lemma upt_4: "[0..<4] = [0, 1, 2, 3]"
  by code_simp

lemma bleu_labels:
  "decimal (Suc 0) = ''1''" "decimal (Suc (Suc 0)) = ''2''" "decimal 3 = ''3''" "decimal 4 = ''4''"
  by code_simp+

lemma write_bleu_complete:
  "4 \<le> length sc \<Longrightarrow>
     write_bleu [0..<4] sc f =
       Completed (f @ [(''Bleu-1'', sc ! 0), (''Bleu-2'', sc ! 1), (''Bleu-3'', sc ! 2),
                       (''Bleu-4'', sc ! 3)])"
  by (auto simp: upt_4 bleu_labels)

lemma write_bleu_short:
  assumes "length sc < 4"
  shows "\<exists>f'. write_bleu [0..<4] sc f = Raised LookupError (f @ f') \<and>
           map fst f' = take (length sc) [''Bleu-1'', ''Bleu-2'', ''Bleu-3'', ''Bleu-4'']"
proof -
  from assms consider "length sc = 0" | "length sc = 1" | "length sc = 2" | "length sc = 3"
    by linarith
  then show ?thesis
    by cases (simp_all add: upt_4 bleu_labels)
qed

lemma evaluate_scores_all_succeed:
  assumes "all_succeed s zh embeds"
  shows "\<exists>f. evaluate_scores s zh embeds = Completed f \<and> map fst f = report_labels zh"
proof -
  from assms obtain sc where b: "bleu s = Inr sc" "4 \<le> length sc"
    by (auto simp: all_succeed_def split: sum.splits)
  from assms obtain r c sb dv where o: "rouge s = Inr r" "cider s = Inr c"
      "(if embeds then sentence_bert_embeds s else sentence_bert s) = Inr sb" "diversity s = Inr dv"
    by (cases "rouge s"; cases "cider s"; cases "diversity s";
        cases "if embeds then sentence_bert_embeds s else sentence_bert s")
       (auto simp: all_succeed_def called_def)
  show ?thesis
  proof (cases zh)
    case True
    with b o show ?thesis
      by (simp add: evaluate_scores_def write_bleu_complete report_labels_def)
  next
    case False
    with assms obtain m sp where "meteor s = Inr m" "spice s = Inr sp"
      by (cases "meteor s"; cases "spice s") (auto simp: all_succeed_def called_def)
    with False b o show ?thesis
      by (simp add: evaluate_scores_def write_bleu_complete report_labels_def)
  qed
qed

lemma evaluate_scores_after_bleu:
  assumes "bleu s = Inr sc" and "4 \<le> length sc" and "\<not> list_all (\<lambda>r. \<not> isl r) (called s zh embeds)"
  shows "\<exists>e f ls. evaluate_scores s zh embeds = Raised e f \<and>
           report_labels zh = map fst f @ ls \<and> ls \<noteq> []"
  using assms
  by (cases zh; cases embeds; cases "rouge s"; cases "cider s"; cases "meteor s"; cases "spice s";
      cases "diversity s"; cases "sentence_bert s"; cases "sentence_bert_embeds s")
     (simp_all add: evaluate_scores_def called_def report_labels_def write_bleu_complete)

lemma evaluate_scores_failure:
  assumes "\<not> all_succeed s zh embeds"
  shows "\<exists>e f ls. evaluate_scores s zh embeds = Raised e f \<and>
           report_labels zh = map fst f @ ls \<and> ls \<noteq> []"
proof (cases "bleu s")
  case (Inl e)
  then show ?thesis
    by (simp add: evaluate_scores_def report_labels_def)
next
  case (Inr sc)
  show ?thesis
  proof (cases "4 \<le> length sc")
    case True
    with assms Inr have "\<not> list_all (\<lambda>r. \<not> isl r) (called s zh embeds)"
      by (simp add: all_succeed_def)
    from evaluate_scores_after_bleu [OF Inr True this] show ?thesis .
  next
    case False
    then have "length sc < 4" by simp
    from write_bleu_short [OF this, of "[]"] obtain f' where
      w: "write_bleu [0..<4] sc [] = Raised LookupError f'"
      and l: "map fst f' = take (length sc) [''Bleu-1'', ''Bleu-2'', ''Bleu-3'', ''Bleu-4'']"
      by auto
    let ?ls = "drop (length sc) [''Bleu-1'', ''Bleu-2'', ''Bleu-3'', ''Bleu-4''] @
        [''ROUGE'', ''CIDEr''] @ (if zh then [] else [''Meteor'', ''Spice'']) @
        [''SentenceBert'', ''Diversity'']"
    have "report_labels zh =
        (take (length sc) [''Bleu-1'', ''Bleu-2'', ''Bleu-3'', ''Bleu-4''] @
         drop (length sc) [''Bleu-1'', ''Bleu-2'', ''Bleu-3'', ''Bleu-4'']) @
        [''ROUGE'', ''CIDEr''] @ (if zh then [] else [''Meteor'', ''Spice'']) @
        [''SentenceBert'', ''Diversity'']"
      unfolding append_take_drop_id by (simp add: report_labels_def)
    then have "report_labels zh = map fst f' @ ?ls"
      by (simp add: l)
    moreover have "?ls \<noteq> []" by simp
    moreover have "evaluate_scores s zh embeds = Raised LookupError f'"
      by (simp add: evaluate_scores_def Inr w)
    ultimately show ?thesis by blast
  qed
qed

text \<open>
  C8. When every scorer of the run returns its score, the report is completed and its lines
  are, in this order: BLEU-1 to BLEU-4, ROUGE, CIDEr, then METEOR and SPICE unless the
  corpus is logographic (\<open>zh\<close>), then the sentence-embedding similarity and the lexical
  diversity. No completed report has other lines or another order.
\<close>

theorem evaluate_report_order:
  "(all_succeed s zh embeds \<longrightarrow> (\<exists>f. evaluate_scores s zh embeds = Completed f)) \<and>
   (\<forall>f. evaluate_scores s zh embeds = Completed f \<longrightarrow>
      map fst f =
        [''Bleu-1'', ''Bleu-2'', ''Bleu-3'', ''Bleu-4'', ''ROUGE'', ''CIDEr''] @
        (if zh then [] else [''Meteor'', ''Spice'']) @ [''SentenceBert'', ''Diversity''])"
proof (intro conjI impI allI)
  assume "all_succeed s zh embeds"
  from evaluate_scores_all_succeed [OF this]
  show "\<exists>f. evaluate_scores s zh embeds = Completed f" by blast
next
  fix f
  assume c: "evaluate_scores s zh embeds = Completed f"
  have "all_succeed s zh embeds"
  proof (rule ccontr)
    assume "\<not> all_succeed s zh embeds"
    from evaluate_scores_failure [OF this] c show False by auto
  qed
  from evaluate_scores_all_succeed [OF this] c
  show "map fst f =
        [''Bleu-1'', ''Bleu-2'', ''Bleu-3'', ''Bleu-4'', ''ROUGE'', ''CIDEr''] @
        (if zh then [] else [''Meteor'', ''Spice'']) @ [''SentenceBert'', ''Diversity'']"
    by (auto simp: report_labels_def)
qed

theorem evaluate_report_order_witness:
  "all_succeed
     \<lparr>bleu = Inr [4 / 10, 3 / 10, 2 / 10, 1 / 10], rouge = Inr (5 / 10), cider = Inr (6 / 10),
        meteor = Inr (7 / 10), spice = Inr (8 / 10), sentence_bert = Inr (9 / 10),
        sentence_bert_embeds = Inr (9 / 10), diversity = Inr 1\<rparr> False False \<and>
   evaluate_scores
     \<lparr>bleu = Inr [4 / 10, 3 / 10, 2 / 10, 1 / 10], rouge = Inr (5 / 10), cider = Inr (6 / 10),
        meteor = Inr (7 / 10), spice = Inr (8 / 10), sentence_bert = Inr (9 / 10),
        sentence_bert_embeds = Inr (9 / 10), diversity = Inr 1\<rparr> False False =
     Completed [(''Bleu-1'', 4 / 10), (''Bleu-2'', 3 / 10), (''Bleu-3'', 2 / 10), (''Bleu-4'', 1 / 10),
       (''ROUGE'', 5 / 10), (''CIDEr'', 6 / 10), (''Meteor'', 7 / 10), (''Spice'', 8 / 10),
       (''SentenceBert'', 9 / 10), (''Diversity'', 1)] \<and>
   evaluate_scores
     \<lparr>bleu = Inr [4 / 10, 3 / 10, 2 / 10, 1 / 10], rouge = Inr (5 / 10), cider = Inr (6 / 10),
        meteor = Inr (7 / 10), spice = Inr (8 / 10), sentence_bert = Inr (9 / 10),
        sentence_bert_embeds = Inr (9 / 10), diversity = Inr 1\<rparr> True False =
     Completed [(''Bleu-1'', 4 / 10), (''Bleu-2'', 3 / 10), (''Bleu-3'', 2 / 10), (''Bleu-4'', 1 / 10),
       (''ROUGE'', 5 / 10), (''CIDEr'', 6 / 10), (''SentenceBert'', 9 / 10), (''Diversity'', 1)]"
proof -
  let ?s = "\<lparr>bleu = Inr [4 / 10, 3 / 10, 2 / 10, 1 / 10], rouge = Inr (5 / 10), cider = Inr (6 / 10),
        meteor = Inr (7 / 10), spice = Inr (8 / 10), sentence_bert = Inr (9 / 10),
        sentence_bert_embeds = Inr (9 / 10), diversity = Inr 1\<rparr>"
  have h: "all_succeed ?s False False"
    by (simp add: all_succeed_def called_def)
  have c: "evaluate_scores ?s False False =
     Completed [(''Bleu-1'', 4 / 10), (''Bleu-2'', 3 / 10), (''Bleu-3'', 2 / 10), (''Bleu-4'', 1 / 10),
       (''ROUGE'', 5 / 10), (''CIDEr'', 6 / 10), (''Meteor'', 7 / 10), (''Spice'', 8 / 10),
       (''SentenceBert'', 9 / 10), (''Diversity'', 1)]"
    by (simp add: evaluate_scores_def write_bleu_complete)
  have z: "evaluate_scores ?s True False =
     Completed [(''Bleu-1'', 4 / 10), (''Bleu-2'', 3 / 10), (''Bleu-3'', 2 / 10), (''Bleu-4'', 1 / 10),
       (''ROUGE'', 5 / 10), (''CIDEr'', 6 / 10), (''SentenceBert'', 9 / 10), (''Diversity'', 1)]"
    by (simp add: evaluate_scores_def write_bleu_complete)
  show ?thesis
    using h c z evaluate_report_order [of ?s False False] evaluate_report_order [of ?s True False]
    by simp
qed

lemma and_then_assoc:
  "and_then (and_then r f) g = and_then r (\<lambda>w. and_then (f w) g)"
  by (cases r) simp_all

lemma and_then_Completed_right: "and_then r Completed = r"
  by (cases r) simp_all

lemma run_steps_Nil_fun: "run_steps [] = Completed"
  by (rule ext) simp

lemma run_steps_Cons_fun:
  "run_steps ((l, r) # steps) = (\<lambda>f. and_then (write_score l r f) (run_steps steps))"
  by (rule ext) simp

lemma evaluate_scores_steps:
  "bleu s = Inr sc \<Longrightarrow>
     evaluate_scores s zh embeds =
       and_then (write_bleu [0..<4] sc []) (run_steps (scalar_steps s zh embeds))"
  by (simp add: evaluate_scores_def scalar_steps_def run_steps_Nil_fun run_steps_Cons_fun
      and_then_assoc and_then_Completed_right)

lemma run_steps_failure:
  "list_all (\<lambda>(l', r). \<not> isl r) pre \<Longrightarrow>
     run_steps (pre @ (l, Inl e) # post) f = Raised e (f @ map (\<lambda>(l', r). (l', projr r)) pre)"
proof (induction pre arbitrary: f)
  case Nil
  then show ?case by simp
next
  case (Cons step pre)
  obtain l' r where step: "step = (l', r)" by (cases step)
  with Cons.prems obtain x where r: "r = Inr x" by (cases r) simp_all
  from Cons.prems have "list_all (\<lambda>(l', r). \<not> isl r) pre" by simp
  from Cons.IH [OF this] show ?case by (simp add: step r)
qed

lemma write_bleu_short_lines:
  assumes "length sc < 4"
  shows "write_bleu [0..<4] sc [] =
           Raised LookupError (map (\<lambda>n. (''Bleu-'' @ decimal (n + 1), sc ! n)) [0..<length sc])"
proof -
  have u: "[0..<Suc 0] = [0]" "[0..<2] = [0, Suc 0]" "[0..<3] = [0, Suc 0, 2]"
    by (simp_all add: upt_rec)
  from assms consider "length sc = 0" | "length sc = Suc 0" | "length sc = 2" | "length sc = 3"
    by linarith
  then show ?thesis
    by cases (simp_all add: upt_4 u)
qed

text \<open>
  C5 (amended). The scorers run one after the other with no isolation, and the first one that
  fails ends the evaluation with its own exception: the report holds the lines of the
  scorers before it and nothing else, whatever the scorers after it would return, so they
  contribute no line and nothing notes the missing metric. When \<open>Bleu\<close> fails the report
  is empty; when it returns fewer than four scores the report stops after as many lines.
\<close>

theorem scorer_failure_aborts_report:
  "(bleu s = Inl e \<longrightarrow> evaluate_scores s zh embeds = Raised e []) \<and>
   (bleu s = Inr sc \<and> length sc < 4 \<longrightarrow>
      evaluate_scores s zh embeds =
        Raised LookupError (map (\<lambda>n. (''Bleu-'' @ decimal (n + 1), sc ! n)) [0..<length sc])) \<and>
   (bleu s = Inr sc \<and> 4 \<le> length sc \<and> scalar_steps s zh embeds = pre @ (l, Inl e) # post \<and>
    list_all (\<lambda>(l', r). \<not> isl r) pre \<longrightarrow>
      evaluate_scores s zh embeds =
        Raised e ([(''Bleu-1'', sc ! 0), (''Bleu-2'', sc ! 1), (''Bleu-3'', sc ! 2),
                   (''Bleu-4'', sc ! 3)] @ map (\<lambda>(l', r). (l', projr r)) pre))"
proof (intro conjI impI)
  assume "bleu s = Inl e"
  then show "evaluate_scores s zh embeds = Raised e []"
    by (simp add: evaluate_scores_def)
next
  assume "bleu s = Inr sc \<and> length sc < 4"
  then show "evaluate_scores s zh embeds =
        Raised LookupError (map (\<lambda>n. (''Bleu-'' @ decimal (n + 1), sc ! n)) [0..<length sc])"
    by (simp add: evaluate_scores_steps write_bleu_short_lines)
next
  assume a: "bleu s = Inr sc \<and> 4 \<le> length sc \<and> scalar_steps s zh embeds = pre @ (l, Inl e) # post \<and>
    list_all (\<lambda>(l', r). \<not> isl r) pre"
  then have "list_all (\<lambda>(l', r). \<not> isl r) pre" by simp
  from run_steps_failure [OF this] a
  show "evaluate_scores s zh embeds =
        Raised e ([(''Bleu-1'', sc ! 0), (''Bleu-2'', sc ! 1), (''Bleu-3'', sc ! 2),
                   (''Bleu-4'', sc ! 3)] @ map (\<lambda>(l', r). (l', projr r)) pre)"
    by (simp add: evaluate_scores_steps write_bleu_complete)
qed

theorem scorer_failure_aborts_report_witness:
  "evaluate_scores
     \<lparr>bleu = Inl ScorerError, rouge = Inr (5 / 10), cider = Inr (6 / 10),
        meteor = Inr (7 / 10), spice = Inr (8 / 10), sentence_bert = Inr (9 / 10),
        sentence_bert_embeds = Inr (9 / 10), diversity = Inr 1\<rparr> True False = Raised ScorerError [] \<and>
   evaluate_scores
     \<lparr>bleu = Inr [4 / 10, 3 / 10], rouge = Inr (5 / 10), cider = Inr (6 / 10),
        meteor = Inr (7 / 10), spice = Inr (8 / 10), sentence_bert = Inr (9 / 10),
        sentence_bert_embeds = Inr (9 / 10), diversity = Inr 1\<rparr> True False = Raised LookupError [(''Bleu-1'', 4 / 10), (''Bleu-2'', 3 / 10)] \<and>
   evaluate_scores
     \<lparr>bleu = Inr [4 / 10, 3 / 10, 2 / 10, 1 / 10], rouge = Inr (5 / 10), cider = Inr (6 / 10),
        meteor = Inr (7 / 10), spice = Inl ScorerError, sentence_bert = Inr (9 / 10),
        sentence_bert_embeds = Inr (9 / 10), diversity = Inr 1\<rparr> False True =
     Raised ScorerError
       [(''Bleu-1'', 4 / 10), (''Bleu-2'', 3 / 10), (''Bleu-3'', 2 / 10), (''Bleu-4'', 1 / 10),
        (''ROUGE'', 5 / 10), (''CIDEr'', 6 / 10), (''Meteor'', 7 / 10)]"
proof -
  let ?b = "\<lparr>bleu = Inl ScorerError, rouge = Inr (5 / 10), cider = Inr (6 / 10),
        meteor = Inr (7 / 10), spice = Inr (8 / 10), sentence_bert = Inr (9 / 10),
        sentence_bert_embeds = Inr (9 / 10), diversity = Inr 1\<rparr>"
  let ?h = "\<lparr>bleu = Inr [4 / 10, 3 / 10], rouge = Inr (5 / 10), cider = Inr (6 / 10),
        meteor = Inr (7 / 10), spice = Inr (8 / 10), sentence_bert = Inr (9 / 10),
        sentence_bert_embeds = Inr (9 / 10), diversity = Inr 1\<rparr>"
  let ?s = "\<lparr>bleu = Inr [4 / 10, 3 / 10, 2 / 10, 1 / 10], rouge = Inr (5 / 10), cider = Inr (6 / 10),
        meteor = Inr (7 / 10), spice = Inl ScorerError, sentence_bert = Inr (9 / 10),
        sentence_bert_embeds = Inr (9 / 10), diversity = Inr 1\<rparr>"
  have b: "bleu ?b = Inl ScorerError" by simp
  have h: "bleu ?h = Inr [4 / 10, 3 / 10] \<and> length [4 / 10, 3 / 10 :: real] < 4" by simp
  have s: "bleu ?s = Inr [4 / 10, 3 / 10, 2 / 10, 1 / 10] \<and>
      4 \<le> length [4 / 10, 3 / 10, 2 / 10, 1 / 10 :: real] \<and>
      scalar_steps ?s False True =
        [(''ROUGE'', Inr (5 / 10)), (''CIDEr'', Inr (6 / 10)), (''Meteor'', Inr (7 / 10))] @
        (''Spice'', Inl ScorerError) # [(''SentenceBert'', Inr (9 / 10)), (''Diversity'', Inr 1)] \<and>
      list_all (\<lambda>(l', r). \<not> isl r)
        [(''ROUGE'', Inr (5 / 10)), (''CIDEr'', Inr (6 / 10)), (''Meteor'', Inr (7 / 10 :: real))]"
    by (simp add: scalar_steps_def)
  note t1 = scorer_failure_aborts_report [of ?b ScorerError True False, THEN conjunct1, rule_format, OF b]
  note t2 = scorer_failure_aborts_report [of ?h _ True False "[4 / 10, 3 / 10]", THEN conjunct2,
      THEN conjunct1, rule_format, OF h]
  note t3 = scorer_failure_aborts_report [of ?s ScorerError False True "[4 / 10, 3 / 10, 2 / 10, 1 / 10]"
      "[(''ROUGE'', Inr (5 / 10)), (''CIDEr'', Inr (6 / 10)), (''Meteor'', Inr (7 / 10))]"
      "''Spice''" "[(''SentenceBert'', Inr (9 / 10)), (''Diversity'', Inr 1)]",
      THEN conjunct2, THEN conjunct2, rule_format, OF s]
  have u: "[0..<2] = [0, Suc 0]" by (simp add: upt_rec)
  show ?thesis
    using t1 t2 t3 by (simp add: u bleu_labels)
qed

text \<open>
  C5 as stated fails: with a METEOR scorer that cannot run (its external tool is missing) and
  every other scorer working, the evaluation is cut after the CIDEr line, with no line for
  SPICE, the sentence-embedding similarity or the diversity.
\<close>

theorem scorer_failure_counterexample:
  "evaluate_scores
     \<lparr>bleu = Inr [4 / 10, 3 / 10, 2 / 10, 1 / 10], rouge = Inr (5 / 10), cider = Inr (6 / 10),
        meteor = Inl ScorerError, spice = Inr (8 / 10), sentence_bert = Inr (9 / 10),
        sentence_bert_embeds = Inr (9 / 10), diversity = Inr 1\<rparr> False False =
     Raised ScorerError
       [(''Bleu-1'', 4 / 10), (''Bleu-2'', 3 / 10), (''Bleu-3'', 2 / 10), (''Bleu-4'', 1 / 10),
        (''ROUGE'', 5 / 10), (''CIDEr'', 6 / 10)]"
  by (simp add: evaluate_scores_def write_bleu_complete)

section \<open>Properties of the scheduler stepping\<close>

text \<open>
  C6 (amended). The scheduler is stepped once at each completed evaluation epoch, and at no
  other event, exactly when its class is one of StepLR, ReduceLROnPlateau, ExponentialLR
  and MultiStepLR; of these only ReduceLROnPlateau is given the score. Every other
  scheduler is stepped once at each start of a training iteration, and at no other event.
\<close>

theorem update_lr_events:
  assumes "metrics ''score'' = Some v"
  shows "(scheduler_class \<in> {''StepLR'', ''ReduceLROnPlateau'', ''ExponentialLR'', ''MultiStepLR''} \<longrightarrow>
            fire_update_lr scheduler_class metrics (Evaluator, EPOCH_COMPLETED) =
              Inr [if scheduler_class = ''ReduceLROnPlateau'' then Step_with v else Step] \<and>
            (\<forall>ev. ev \<noteq> (Evaluator, EPOCH_COMPLETED) \<longrightarrow>
               fire_update_lr scheduler_class metrics ev = Inr [])) \<and>
         (scheduler_class \<notin> {''StepLR'', ''ReduceLROnPlateau'', ''ExponentialLR'', ''MultiStepLR''} \<longrightarrow>
            fire_update_lr scheduler_class metrics (Trainer, ITERATION_STARTED) = Inr [Step] \<and>
            (\<forall>ev. ev \<noteq> (Trainer, ITERATION_STARTED) \<longrightarrow>
               fire_update_lr scheduler_class metrics ev = Inr []))"
  using assms
  by (auto simp: fire_update_lr_def add_update_lr_def update_lr_def epoch_schedulers_def)

theorem update_lr_events_witness:
  "[''score'' \<mapsto> 1 / 2] ''score'' = Some (1 / 2) \<and>
   fire_update_lr ''ReduceLROnPlateau'' [''score'' \<mapsto> 1 / 2] (Evaluator, EPOCH_COMPLETED) =
     Inr [Step_with (1 / 2)] \<and>
   fire_update_lr ''ReduceLROnPlateau'' [''score'' \<mapsto> 1 / 2] (Trainer, ITERATION_STARTED) = Inr [] \<and>
   fire_update_lr ''ExponentialDecayScheduler'' [''score'' \<mapsto> 1 / 2] (Trainer, ITERATION_STARTED) =
     Inr [Step] \<and>
   fire_update_lr ''ExponentialDecayScheduler'' [''score'' \<mapsto> 1 / 2] (Evaluator, EPOCH_COMPLETED) =
     Inr []"
proof -
  have h: "[''score'' \<mapsto> 1 / 2 :: real] ''score'' = Some (1 / 2)" by simp
  show ?thesis
    using h
      update_lr_events [where metrics = "[''score'' \<mapsto> 1 / 2]" and v = "1 / 2"
        and scheduler_class = "''ReduceLROnPlateau''", OF h]
      update_lr_events [where metrics = "[''score'' \<mapsto> 1 / 2]" and v = "1 / 2"
        and scheduler_class = "''ExponentialDecayScheduler''", OF h]
    by simp
qed

text \<open>
  C6 as stated fails for StepLR, which takes no metric and is not sensitive to plateaus: the
  claim has it stepped at each start of a training iteration, the code steps it at each
  completed evaluation epoch and never at the start of an iteration.
\<close>

theorem update_lr_StepLR_counterexample:
  "fire_update_lr ''StepLR'' [''score'' \<mapsto> 1 / 2] (Trainer, ITERATION_STARTED) = Inr [] \<and>
   fire_update_lr ''StepLR'' [''score'' \<mapsto> 1 / 2] (Evaluator, EPOCH_COMPLETED) = Inr [Step]"
  by (simp add: fire_update_lr_def add_update_lr_def update_lr_def epoch_schedulers_def)

section \<open>Properties of \<open>BaseRunner.sample\<close>\<close>

lemma sample_raises: "\<exists>e. sample env kwargs = Raised e []"
  by (simp add: sample_def read_local_def
      split: sum.splits option.splits model_value.splits scaler_value.splits)

lemma sample_unbound:
  "loads_succeed env \<Longrightarrow> sample env kwargs = Raised UnboundLocalError []"
  by (auto simp: sample_def loads_succeed_def read_local_def
      split: sum.splits option.splits model_value.splits scaler_value.splits)

text \<open>
  C9 (amended). \<open>sample\<close> fails for every input, before it writes anything. When the steps
  before the test of \<open>max_length\<close> succeed, the failure is the unbound-variable error of
  that test, whatever the keyword arguments are. In \<open>_sample\<close>, a decoded caption that is a
  string assigns nothing to \<open>sentence\<close>, so the read of \<open>sentence\<close> for a sequence whose
  caption is a string is an unbound-variable error and no row is written for it; a batch
  decoded without \<open>zh\<close> never gets a row.
\<close>

theorem sample_unbound_max_length:
  "(\<exists>e. sample env kwargs = Raised e []) \<and>
   (loads_succeed env \<longrightarrow> sample env kwargs = Raised UnboundLocalError []) \<and>
   (\<forall>c. convert_idx2sentence seq v zh = Inr (Sentence c) \<longrightarrow>
      sample_seqs v zh width ((key, seq) # seqs) None w = Raised UnboundLocalError w) \<and>
   (\<exists>e. sample_seqs v False width ((key, seq) # seqs) None w = Raised e w)"
proof -
  have "\<exists>e. sample_seqs v False width ((key, seq) # seqs) None w = Raised e w"
    by (simp add: convert_idx2sentence_def read_local_def split: sum.splits)
  then show ?thesis
    by (simp add: sample_raises sample_unbound read_local_def)
qed

theorem sample_unbound_max_length_witness:
  "loads_succeed
     \<lparr>tableprint = True,
      saved_pth = Inr \<lparr>saved_model = Some (Module \<lparr>model_max_length = 20\<rparr>),
        saved_scaler = Some (Scaler (0::nat)),
        saved_config = Some \<lparr>config_vocab_file = Some ''vocab.pth'', config_zh = Some False\<rparr>\<rparr>,
      vocab_files = (\<lambda>f. Inr [0 \<mapsto> str ''<start>'', 1 \<mapsto> str ''<end>'', 2 \<mapsto> str ''a'']),
      dataloader = Inr [Inr [(str ''clip'', [0, 2, 1])]]\<rparr> \<and>
   sample
     \<lparr>tableprint = True,
      saved_pth = Inr \<lparr>saved_model = Some (Module \<lparr>model_max_length = 20\<rparr>),
        saved_scaler = Some (Scaler (0::nat)),
        saved_config = Some \<lparr>config_vocab_file = Some ''vocab.pth'', config_zh = Some False\<rparr>\<rparr>,
      vocab_files = (\<lambda>f. Inr [0 \<mapsto> str ''<start>'', 1 \<mapsto> str ''<end>'', 2 \<mapsto> str ''a'']),
      dataloader = Inr [Inr [(str ''clip'', [0, 2, 1])]]\<rparr>
     [''max_length'' \<mapsto> 20] = Raised UnboundLocalError [] \<and>
   convert_idx2sentence [0, 2, 1] [0 \<mapsto> str ''<start>'', 1 \<mapsto> str ''<end>'', 2 \<mapsto> str ''a''] False =
     Inr (Sentence (str ''a'')) \<and>
   sample_seqs [0 \<mapsto> str ''<start>'', 1 \<mapsto> str ''<end>'', 2 \<mapsto> str ''a''] False 80
     [(str ''clip'', [0, 2, 1])] None [Header 80, Newline] =
     Raised UnboundLocalError [Header 80, Newline]"
proof -
  let ?v = "[0 \<mapsto> str ''<start>'', 1 \<mapsto> str ''<end>'', 2 \<mapsto> str ''a'']"
  let ?env = "\<lparr>tableprint = True,
      saved_pth = Inr \<lparr>saved_model = Some (Module \<lparr>model_max_length = 20\<rparr>),
        saved_scaler = Some (Scaler (0::nat)),
        saved_config = Some \<lparr>config_vocab_file = Some ''vocab.pth'', config_zh = Some False\<rparr>\<rparr>,
      vocab_files = (\<lambda>f. Inr ?v),
      dataloader = Inr [Inr [(str ''clip'', [0, 2, 1])]]\<rparr>"
  have h: "loads_succeed ?env"
    by (simp add: loads_succeed_def)
  have c: "convert_idx2sentence [0, 2, 1] ?v False = Inr (Sentence (str ''a''))"
    by (simp add: convert_idx2sentence_def str_def)
  note t = sample_unbound_max_length [of ?env "[''max_length'' \<mapsto> 20]" "[0, 2, 1]" ?v False 80
      "str ''clip''" "[]" "[Header 80, Newline]"]
  from t h have 1: "sample ?env [''max_length'' \<mapsto> 20] = Raised UnboundLocalError []"
    by blast
  from t c have 2: "sample_seqs ?v False 80 [(str ''clip'', [0, 2, 1])] None [Header 80, Newline] =
     Raised UnboundLocalError [Header 80, Newline]"
    by blast
  from h 1 c 2 show ?thesis by blast
qed

text \<open>
  C9 as stated fails for an experiment directory without \<open>saved.pth\<close>: \<open>torch.load\<close> raises
  first, and the error of \<open>sample\<close> is the missing file, not the unbound variable.
\<close>

theorem sample_missing_checkpoint_counterexample:
  "sample
     \<lparr>tableprint = True, saved_pth = (Inl FileNotFoundError :: error + nat saved),
      vocab_files = (\<lambda>f. Inl FileNotFoundError), dataloader = Inr []\<rparr>
     Map.empty = Raised FileNotFoundError [] \<and>
   Raised FileNotFoundError [] \<noteq> (Raised UnboundLocalError [] :: out_line outcome)"
  by (simp add: sample_def)

text \<open>
  The same holds for a checkpoint that stores the state dictionary of the model, as
  \<open>evaluate\<close> expects it: \<open>model.to\<close> raises before the test is reached.
\<close>

lemma sample_state_dict_checkpoint:
  "sample
     \<lparr>tableprint = True,
      saved_pth = Inr \<lparr>saved_model = Some State_dict, saved_scaler = Some (Scaler (0::nat)),
        saved_config = Some \<lparr>config_vocab_file = Some ''vocab.pth'', config_zh = Some False\<rparr>\<rparr>,
      vocab_files = (\<lambda>f. Inr Map.empty), dataloader = Inr []\<rparr>
     Map.empty = Raised AttributeError []"
  by (simp add: sample_def)

end
